theory Spec2Isabelle
  imports Main "HOL-Library.Word"
begin

section \<open>Python values, exceptions and the dynamic operations the proxy uses\<close>

text \<open>
  The proxy (\<^verbatim>\<open>claude_proxy_server.py\<close>) is dynamically typed: the SDK messages, their
  fields and the parsed JSON of an inbound line are all plain Python objects, tested at
  run time with \<^verbatim>\<open>isinstance\<close>, \<^verbatim>\<open>.get\<close>, \<^verbatim>\<open>in\<close> and
  subscripting. The model keeps that: one type of Python values, and every operation that
  can raise returns a sum whose left side is the exception.

  A \<^verbatim>\<open>dict\<close> is an association list in insertion order, looked up with \<open>map_of\<close>
  (keys are strings: the dicts here come from JSON or are built by the proxy itself). An
  object is its class name and its attributes. A float is its 64 bits; the proxy only
  copies floats and tests them for truth.
\<close>

datatype pyval =
    PNone
  | PBool bool
  | PInt int
  | PFloat "64 word"
  | PStr string
  | PList "pyval list"
  | PDict "(string \<times> pyval) list"
  | PObj string "(string \<times> pyval) list"

text \<open>
  The exceptions of the model are all subclasses of \<^verbatim>\<open>Exception\<close>.
  \<open>JSONDecodeError\<close> is the one that \<^verbatim>\<open>handle_input\<close> catches apart from the
  others; \<open>SDKError\<close> stands for whatever exception a call on the SDK client raises,
  \<open>OtherError\<close> for an exception of any other class, given by the class's name (a
  \<^verbatim>\<open>RecursionError\<close> of \<^verbatim>\<open>json.loads\<close>, a \<^verbatim>\<open>UnicodeDecodeError\<close> of the reader, a
  \<^verbatim>\<open>UnicodeEncodeError\<close> of \<^verbatim>\<open>print\<close>). Each carries what \<^verbatim>\<open>str(e)\<close> shows.
  \<^verbatim>\<open>asyncio.CancelledError\<close> is not an \<^verbatim>\<open>Exception\<close>: cancellation is outside the
  model.
\<close>

datatype py_exn =
    AttributeError string
  | TypeError string
  | KeyError string
  | JSONDecodeError string
  | SDKError string
  | OtherError string string

definition quoted :: "string \<Rightarrow> string" where
  "quoted s = [CHR 0x27] @ s @ [CHR 0x27]"

text \<open>\<^verbatim>\<open>str(e)\<close>: the message; for a \<^verbatim>\<open>KeyError\<close>, the repr of the missing key.\<close>

fun exn_str :: "py_exn \<Rightarrow> string" where
  "exn_str (AttributeError m) = m"
| "exn_str (TypeError m) = m"
| "exn_str (KeyError k) = quoted k"
| "exn_str (JSONDecodeError m) = m"
| "exn_str (SDKError m) = m"
| "exn_str (OtherError cls m) = m"

definition and_then :: "py_exn + 'a \<Rightarrow> ('a \<Rightarrow> py_exn + 'b) \<Rightarrow> py_exn + 'b" where
  "and_then r f = (case r of Inl e \<Rightarrow> Inl e | Inr x \<Rightarrow> f x)"

text \<open>\<^verbatim>\<open>type(v).__name__\<close>\<close>

fun type_name :: "pyval \<Rightarrow> string" where
  "type_name PNone = ''NoneType''"
| "type_name (PBool b) = ''bool''"
| "type_name (PInt i) = ''int''"
| "type_name (PFloat w) = ''float''"
| "type_name (PStr s) = ''str''"
| "type_name (PList xs) = ''list''"
| "type_name (PDict d) = ''dict''"
| "type_name (PObj c attrs) = c"

text \<open>\<^verbatim>\<open>isinstance(v, C)\<close> for an SDK class \<open>C\<close> (the SDK's classes have no subclasses).\<close>

fun isinstance :: "pyval \<Rightarrow> string \<Rightarrow> bool" where
  "isinstance (PObj c attrs) cls = (c = cls)"
| "isinstance v cls = False"

text \<open>Truth value of a Python value, as \<^verbatim>\<open>not\<close> and \<^verbatim>\<open>or\<close> test it.\<close>

fun py_truthy :: "pyval \<Rightarrow> bool" where
  "py_truthy PNone = False"
| "py_truthy (PBool b) = b"
| "py_truthy (PInt i) = (i \<noteq> 0)"
| "py_truthy (PFloat w) = (w \<noteq> 0 \<and> w \<noteq> 0x8000000000000000)"
| "py_truthy (PStr s) = (s \<noteq> [])"
| "py_truthy (PList xs) = (xs \<noteq> [])"
| "py_truthy (PDict d) = (d \<noteq> [])"
| "py_truthy (PObj c attrs) = True"

definition no_attribute :: "pyval \<Rightarrow> string \<Rightarrow> py_exn" where
  "no_attribute v a =
     AttributeError (quoted (type_name v) @ '' object has no attribute '' @ quoted a)"

text \<open>\<^verbatim>\<open>v.a\<close> for a data attribute \<open>a\<close>.\<close>

fun py_getattr :: "pyval \<Rightarrow> string \<Rightarrow> py_exn + pyval" where
  "py_getattr (PObj c attrs) a =
     (case map_of attrs a of Some x \<Rightarrow> Inr x | None \<Rightarrow> Inl (no_attribute (PObj c attrs) a))"
| "py_getattr v a = Inl (no_attribute v a)"

text \<open>\<^verbatim>\<open>v.get(k, default)\<close>: only a dict has the method.\<close>

fun py_get :: "pyval \<Rightarrow> string \<Rightarrow> pyval \<Rightarrow> py_exn + pyval" where
  "py_get (PDict d) k dflt = (case map_of d k of Some x \<Rightarrow> Inr x | None \<Rightarrow> Inr dflt)"
| "py_get v k dflt = Inl (no_attribute v ''get'')"

text \<open>\<^verbatim>\<open>v[k]\<close> for a string key \<open>k\<close>.\<close>

fun py_subscript :: "pyval \<Rightarrow> string \<Rightarrow> py_exn + pyval" where
  "py_subscript (PDict d) k = (case map_of d k of Some x \<Rightarrow> Inr x | None \<Rightarrow> Inl (KeyError k))"
| "py_subscript (PStr s) k = Inl (TypeError (''string indices must be integers, not '' @ quoted ''str''))"
| "py_subscript (PList xs) k = Inl (TypeError ''list indices must be integers or slices, not str'')"
| "py_subscript v k = Inl (TypeError (quoted (type_name v) @ '' object is not subscriptable''))"

fun is_substring :: "string \<Rightarrow> string \<Rightarrow> bool" where
  "is_substring p [] = (p = [])"
| "is_substring p (c # cs) = (take (length p) (c # cs) = p \<or> is_substring p cs)"

text \<open>\<^verbatim>\<open>k in v\<close> for a string \<open>k\<close>: a key of a dict, an element of a list, a substring of a string.\<close>

fun py_contains :: "string \<Rightarrow> pyval \<Rightarrow> py_exn + bool" where
  "py_contains k (PDict d) = Inr (map_of d k \<noteq> None)"
| "py_contains k (PList xs) = Inr (PStr k \<in> set xs)"
| "py_contains k (PStr s) = Inr (is_substring k s)"
| "py_contains k v = Inl (TypeError (''argument of type '' @ quoted (type_name v) @ '' is not iterable''))"

text \<open>
  The elements a \<^verbatim>\<open>for\<close> loop over \<open>v\<close> visits: the items of a list, the keys of a
  dict, the characters of a string.
\<close>

fun py_iter :: "pyval \<Rightarrow> py_exn + pyval list" where
  "py_iter (PList xs) = Inr xs"
| "py_iter (PDict d) = Inr (map (\<lambda>kv. PStr (fst kv)) d)"
| "py_iter (PStr s) = Inr (map (\<lambda>c. PStr [c]) s)"
| "py_iter v = Inl (TypeError (quoted (type_name v) @ '' object is not iterable''))"

section \<open>The proxy's state\<close>

text \<open>
  The fields \<^verbatim>\<open>__init__\<close> sets. \<open>session_id\<close> is \<^verbatim>\<open>str(uuid.uuid4())\<close>, fixed for the
  process; \<open>active_session_id\<close> starts as \<^verbatim>\<open>None\<close>; \<open>client\<close> is the state of the SDK client
  that \<^verbatim>\<open>start\<close> connects before any line or event is handled.
\<close>

record 'c proxy =
  client :: 'c
  session_id :: string
  active_session_id :: pyval
  request_counter :: int

definition init :: "'c \<Rightarrow> string \<Rightarrow> 'c proxy" where
  "init c uuid = \<lparr>client = c, session_id = uuid, active_session_id = PNone, request_counter = 0\<rparr>"

section \<open>Upstream events to stream-json records\<close>

definition text_block :: "string \<Rightarrow> pyval" where
  "text_block s = PDict [(''type'', PStr ''text''), (''text'', PStr s)]"

text \<open>
  One iteration of the loop of \<^verbatim>\<open>_convert_content_blocks\<close>: the dict appended to
  \<^verbatim>\<open>result\<close> for a block of a known class, nothing for any other block.
\<close>

definition convert_block :: "pyval \<Rightarrow> py_exn + pyval list" where
  "convert_block block =
    (if isinstance block ''TextBlock'' then
       and_then (py_getattr block ''text'') (\<lambda>text.
       Inr [PDict [(''type'', PStr ''text''), (''text'', text)]])
     else if isinstance block ''ToolUseBlock'' then
       and_then (py_getattr block ''id'') (\<lambda>ident.
       and_then (py_getattr block ''name'') (\<lambda>name.
       and_then (py_getattr block ''input'') (\<lambda>inp.
       Inr [PDict [(''type'', PStr ''tool_use''), (''id'', ident), (''name'', name),
                   (''input'', inp)]])))
     else if isinstance block ''ToolResultBlock'' then
       and_then (py_getattr block ''tool_use_id'') (\<lambda>tool_use_id.
       and_then (py_getattr block ''content'') (\<lambda>content.
       and_then (py_getattr block ''is_error'') (\<lambda>is_error.
       Inr [PDict [(''type'', PStr ''tool_result''), (''tool_use_id'', tool_use_id),
                   (''content'', content), (''is_error'', is_error)]])))
     else if isinstance block ''ThinkingBlock'' then
       and_then (py_getattr block ''thinking'') (\<lambda>thinking.
       and_then (py_getattr block ''signature'') (\<lambda>signature.
       Inr [PDict [(''type'', PStr ''thinking''), (''thinking'', thinking),
                   (''signature'', signature)]]))
     else Inr [])"

fun convert_blocks :: "pyval list \<Rightarrow> pyval list \<Rightarrow> py_exn + pyval list" where
  "convert_blocks [] result = Inr result"
| "convert_blocks (block # blocks) result =
     and_then (convert_block block) (\<lambda>r. convert_blocks blocks (result @ r))"

text \<open>
  \<^verbatim>\<open>_convert_content_blocks\<close>. \<open>py_str\<close> is Python's \<^verbatim>\<open>str\<close> builtin, a parameter of
  the model.
\<close>

fun convert_content_blocks :: "(pyval \<Rightarrow> string) \<Rightarrow> pyval \<Rightarrow> py_exn + pyval" where
  "convert_content_blocks py_str (PStr s) = Inr (PList [text_block s])"
| "convert_content_blocks py_str (PList blocks) =
     and_then (convert_blocks blocks []) (\<lambda>result. Inr (PList result))"
| "convert_content_blocks py_str content = Inr (PList [text_block (py_str content)])"

text \<open>
  The \<^verbatim>\<open>SystemMessage\<close> branch's update of the active session id (lines 100 to 105):
  only for the subtype \<^verbatim>\<open>init\<close>; the id in \<^verbatim>\<open>data\<close> when there is one, else the
  local id when none is active yet.
\<close>

definition on_system :: "'c proxy \<Rightarrow> pyval \<Rightarrow> py_exn + 'c proxy" where
  "on_system self message =
     and_then (py_getattr message ''subtype'') (\<lambda>subtype.
       if subtype = PStr ''init'' then
         and_then (py_getattr message ''data'') (\<lambda>data.
         and_then (py_contains ''session_id'' data) (\<lambda>has.
           if has then
             and_then (py_subscript data ''session_id'') (\<lambda>v.
             Inr (self\<lparr>active_session_id := v\<rparr>))
           else if \<not> py_truthy (active_session_id self) then
             Inr (self\<lparr>active_session_id := PStr (session_id self)\<rparr>)
           else Inr self))
       else Inr self)"

text \<open>
  The body of the \<^verbatim>\<open>try\<close> of \<^verbatim>\<open>convert_to_stream_json\<close>: the record returned or
  the exception raised, and the proxy's state afterwards.
\<close>

definition convert_body ::
    "(pyval \<Rightarrow> string) \<Rightarrow> 'c proxy \<Rightarrow> pyval \<Rightarrow> (py_exn + pyval) \<times> 'c proxy" where
  "convert_body py_str self message =
    (if isinstance message ''UserMessage'' then
       (and_then (py_getattr message ''content'') (\<lambda>c.
        and_then (convert_content_blocks py_str c) (\<lambda>content.
        Inr (PDict [(''type'', PStr ''user''),
                    (''message'', PDict [(''role'', PStr ''user''), (''content'', content)]),
                    (''session_id'', active_session_id self)]))), self)
     else if isinstance message ''AssistantMessage'' then
       (and_then (py_getattr message ''content'') (\<lambda>c.
        and_then (convert_content_blocks py_str c) (\<lambda>content.
        and_then (py_getattr message ''model'') (\<lambda>model.
        Inr (PDict [(''type'', PStr ''assistant''),
                    (''message'', PDict [(''role'', PStr ''assistant''), (''content'', content),
                                         (''model'', model)]),
                    (''session_id'', active_session_id self)])))), self)
     else if isinstance message ''SystemMessage'' then
       (case on_system self message of
          Inl e \<Rightarrow> (Inl e, self)
        | Inr self' \<Rightarrow>
            (and_then (py_getattr message ''subtype'') (\<lambda>subtype.
             and_then (py_getattr message ''data'') (\<lambda>data.
             Inr (PDict [(''type'', PStr ''system''), (''subtype'', subtype), (''data'', data),
                         (''session_id'', active_session_id self')]))), self'))
     else if isinstance message ''ResultMessage'' then
       (and_then (py_getattr message ''subtype'') (\<lambda>subtype.
        and_then (py_getattr message ''duration_ms'') (\<lambda>duration_ms.
        and_then (py_getattr message ''duration_api_ms'') (\<lambda>duration_api_ms.
        and_then (py_getattr message ''is_error'') (\<lambda>is_error.
        and_then (py_getattr message ''num_turns'') (\<lambda>num_turns.
        and_then (py_getattr message ''session_id'') (\<lambda>sid.
        and_then (py_getattr message ''total_cost_usd'') (\<lambda>total_cost_usd.
        and_then (py_getattr message ''usage'') (\<lambda>usage.
        and_then (py_getattr message ''result'') (\<lambda>result.
        Inr (PDict [(''type'', PStr ''result''), (''subtype'', subtype),
                    (''duration_ms'', duration_ms), (''duration_api_ms'', duration_api_ms),
                    (''is_error'', is_error), (''num_turns'', num_turns),
                    (''session_id'', if py_truthy sid then sid else active_session_id self),
                    (''total_cost_usd'', total_cost_usd), (''usage'', usage),
                    (''result'', result)])))))))))), self)
     else
       (Inr (PDict [(''type'', PStr ''system''), (''subtype'', PStr ''unknown_message''),
                    (''data'', PDict [(''message_type'', PStr (type_name message)),
                                      (''content'', PStr (py_str message))])]), self))"

definition conversion_error :: "py_exn \<Rightarrow> pyval \<Rightarrow> pyval" where
  "conversion_error e message =
     PDict [(''type'', PStr ''system''), (''subtype'', PStr ''conversion_error''),
            (''data'', PDict [(''error'', PStr (exn_str e)),
                              (''message_type'', PStr (type_name message))])]"

text \<open>\<^verbatim>\<open>convert_to_stream_json\<close>: the body under its \<^verbatim>\<open>except Exception\<close>.\<close>

definition convert_to_stream_json ::
    "(pyval \<Rightarrow> string) \<Rightarrow> 'c proxy \<Rightarrow> pyval \<Rightarrow> pyval \<times> 'c proxy" where
  "convert_to_stream_json py_str self message =
     (case convert_body py_str self message of
        (Inr output, self') \<Rightarrow> (output, self')
      | (Inl e, self') \<Rightarrow> (conversion_error e message, self'))"

section \<open>Inbound lines\<close>

text \<open>
  What \<^verbatim>\<open>handle_input\<close> does to the outside, in order: calls on the SDK client
  (\<^verbatim>\<open>client.query(text, session_id=...)\<close>, \<^verbatim>\<open>client.interrupt()\<close>) and records
  printed to standard output. The SDK is a parameter: from the client's state and a call,
  the exception the call raises, if any, and the client's next state.

  Writing a record is \<^verbatim>\<open>print(json.dumps(record, ensure_ascii=False), flush=True)\<close>,
  which raises when the record cannot be serialised or encoded (a string with a lone
  surrogate on a UTF-8 stream). \<open>emit\<close> is that statement, a parameter of the model: for
  a record, the exception raised, if any: whether a record can be written depends on the
  record, the stream itself is taken to stay open. A \<open>Print\<close> effect stands for a line
  that was written.
\<close>

datatype sdk_call = Query string pyval | Interrupt

datatype effect = Call sdk_call | Print pyval

type_synonym 'c sdk = "'c \<Rightarrow> sdk_call \<Rightarrow> py_exn option \<times> 'c"

type_synonym emitter = "pyval \<Rightarrow> py_exn option"

text \<open>The calls on the SDK client among some effects, in order.\<close>

fun calls_of :: "effect list \<Rightarrow> sdk_call list" where
  "calls_of [] = []"
| "calls_of (Call c # effects) = c # calls_of effects"
| "calls_of (Print js # effects) = calls_of effects"

text \<open>\<^verbatim>\<open>text_content += v\<close>\<close>

fun py_add_str :: "string \<Rightarrow> pyval \<Rightarrow> py_exn + string" where
  "py_add_str text_content (PStr s) = Inr (text_content @ s)"
| "py_add_str text_content v =
     Inl (TypeError (''can only concatenate str (not '' @ [CHR 0x22] @ type_name v @ [CHR 0x22]
                     @ '') to str''))"

fun is_dict :: "pyval \<Rightarrow> bool" where
  "is_dict (PDict d) = True"
| "is_dict v = False"

text \<open>The loop of lines 195 to 198 over the elements of \<^verbatim>\<open>content_blocks\<close>.\<close>

fun concat_text :: "pyval list \<Rightarrow> string \<Rightarrow> py_exn + string" where
  "concat_text [] text_content = Inr text_content"
| "concat_text (block # blocks) text_content =
     (if is_dict block \<and> py_get block ''type'' PNone = Inr (PStr ''text'') then
        and_then (py_get block ''text'' (PStr [])) (\<lambda>v.
        and_then (py_add_str text_content v) (\<lambda>text_content'.
        concat_text blocks text_content'))
      else concat_text blocks text_content)"

definition extract_text :: "pyval \<Rightarrow> py_exn + string" where
  "extract_text content_blocks =
     and_then (py_iter content_blocks) (\<lambda>blocks. concat_text blocks [])"

text \<open>The branch for \<^verbatim>\<open>type == "user"\<close> (lines 186 to 201).\<close>

definition handle_user ::
    "'c sdk \<Rightarrow> 'c proxy \<Rightarrow> pyval \<Rightarrow> py_exn option \<times> 'c proxy \<times> effect list" where
  "handle_user sdk self data =
    (case py_subscript data ''message'' of
       Inl e \<Rightarrow> (Some e, self, [])
     | Inr message_data \<Rightarrow>
    (case py_get message_data ''content'' (PList []) of
       Inl e \<Rightarrow> (Some e, self, [])
     | Inr content_blocks \<Rightarrow>
    (case py_get data ''session_id'' (PStr (session_id self)) of
       Inl e \<Rightarrow> (Some e, self, [])
     | Inr sid \<Rightarrow>
    (let self' = self\<lparr>active_session_id := sid\<rparr> in
    (case extract_text content_blocks of
       Inl e \<Rightarrow> (Some e, self', [])
     | Inr text_content \<Rightarrow>
    (case sdk (client self') (Query text_content sid) of
       (raised, c') \<Rightarrow> (raised, self'\<lparr>client := c'\<rparr>, [Call (Query text_content sid)])))))))"

definition control_response :: "pyval \<Rightarrow> pyval" where
  "control_response request_id =
     PDict [(''type'', PStr ''control_response''),
            (''response'', PDict [(''request_id'', request_id), (''subtype'', PStr ''interrupt''),
                                  (''error'', PNone)])]"

text \<open>The branch for \<^verbatim>\<open>type == "control_request"\<close> (lines 204 to 222).\<close>

definition handle_control ::
    "emitter \<Rightarrow> 'c sdk \<Rightarrow> 'c proxy \<Rightarrow> pyval \<Rightarrow> py_exn option \<times> 'c proxy \<times> effect list" where
  "handle_control emit sdk self data =
    (case py_get data ''request_id'' PNone of
       Inl e \<Rightarrow> (Some e, self, [])
     | Inr request_id \<Rightarrow>
    (case py_get data ''request'' (PDict []) of
       Inl e \<Rightarrow> (Some e, self, [])
     | Inr request \<Rightarrow>
    (case py_get request ''subtype'' PNone of
       Inl e \<Rightarrow> (Some e, self, [])
     | Inr subtype \<Rightarrow>
       if subtype = PStr ''interrupt'' then
         (case sdk (client self) Interrupt of
            (Some e, c') \<Rightarrow> (Some e, self\<lparr>client := c'\<rparr>, [Call Interrupt])
          | (None, c') \<Rightarrow>
              (case emit (control_response request_id) of
                 Some e \<Rightarrow> (Some e, self\<lparr>client := c'\<rparr>, [Call Interrupt])
               | None \<Rightarrow>
                   (None, self\<lparr>client := c'\<rparr>,
                    [Call Interrupt, Print (control_response request_id)])))
       else (None, self, []))))"

text \<open>
  The body of the \<^verbatim>\<open>try\<close> of \<^verbatim>\<open>handle_input\<close>: the exception it raises, if any,
  the state and the effects up to there. \<open>loads\<close> is \<^verbatim>\<open>json.loads\<close>, a parameter of
  the model.
\<close>

definition handle_body ::
    "emitter \<Rightarrow> (string \<Rightarrow> py_exn + pyval) \<Rightarrow> 'c sdk \<Rightarrow> 'c proxy \<Rightarrow> string
       \<Rightarrow> py_exn option \<times> 'c proxy \<times> effect list" where
  "handle_body emit loads sdk self line =
    (case loads line of
       Inl e \<Rightarrow> (Some e, self, [])
     | Inr data \<Rightarrow>
    (case py_get data ''type'' PNone of
       Inl e \<Rightarrow> (Some e, self, [])
     | Inr ty \<Rightarrow>
       if ty = PStr ''user'' then handle_user sdk self data
       else if ty = PStr ''control_request'' then handle_control emit sdk self data
       else (None, self, [])))"

definition parse_error :: "py_exn \<Rightarrow> string \<Rightarrow> pyval" where
  "parse_error e line =
     PDict [(''type'', PStr ''system''), (''subtype'', PStr ''parse_error''),
            (''data'', PDict [(''error'', PStr (''Invalid JSON: '' @ exn_str e)),
                              (''line'', PStr line)])]"

definition error_record :: "py_exn \<Rightarrow> pyval" where
  "error_record e =
     PDict [(''type'', PStr ''system''), (''subtype'', PStr ''error''),
            (''data'', PDict [(''error'', PStr (exn_str e))])]"

fun is_json_decode_error :: "py_exn \<Rightarrow> bool" where
  "is_json_decode_error (JSONDecodeError m) = True"
| "is_json_decode_error e = False"

text \<open>
  \<^verbatim>\<open>handle_input\<close>: the body under its two \<^verbatim>\<open>except\<close> clauses. Each clause
  writes one record; an exception raised by that write is not caught here and leaves
  \<^verbatim>\<open>handle_input\<close>. The result is the state, the effects, and the exception that
  leaves the function, if any.
\<close>

definition handle_input ::
    "emitter \<Rightarrow> (string \<Rightarrow> py_exn + pyval) \<Rightarrow> 'c sdk \<Rightarrow> 'c proxy \<Rightarrow> string
       \<Rightarrow> 'c proxy \<times> effect list \<times> py_exn option" where
  "handle_input emit loads sdk self line =
    (case handle_body emit loads sdk self line of
       (None, self', out) \<Rightarrow> (self', out, None)
     | (Some e, self', out) \<Rightarrow>
         (let error_msg = (if is_json_decode_error e then parse_error e line else error_record e)
          in case emit error_msg of
               None \<Rightarrow> (self', out @ [Print error_msg], None)
             | Some e' \<Rightarrow> (self', out, Some e')))"

section \<open>The two loops\<close>

text \<open>\<^verbatim>\<open>run\<close>, line 245: the active session id starts as the local one.\<close>

definition seed :: "'c proxy \<Rightarrow> 'c proxy" where
  "seed self = self\<lparr>active_session_id := PStr (session_id self)\<rparr>"

text \<open>
  One turn of the \<^verbatim>\<open>while\<close> loop of \<^verbatim>\<open>run\<close> (lines 254 to 269). What the turn
  reads is either an exception (\<^verbatim>\<open>readline\<close> raises \<^verbatim>\<open>ValueError\<close> on a line
  over the reader's limit, \<^verbatim>\<open>decode\<close> raises \<^verbatim>\<open>UnicodeDecodeError\<close>) or the line,
  decoded and stripped. An exception, of the read or out of \<^verbatim>\<open>handle_input\<close>, is
  written as an \<^verbatim>\<open>error\<close> record; an empty line is skipped. When that write raises
  too, the exception leaves \<^verbatim>\<open>run\<close>.
\<close>

definition read_turn ::
    "emitter \<Rightarrow> (string \<Rightarrow> py_exn + pyval) \<Rightarrow> 'c sdk \<Rightarrow> 'c proxy \<Rightarrow> py_exn + string
       \<Rightarrow> 'c proxy \<times> effect list \<times> py_exn option" where
  "read_turn emit loads sdk self rd =
    (case (case rd of
             Inl e \<Rightarrow> (self, [], Some e)
           | Inr line \<Rightarrow>
               if line \<noteq> [] then handle_input emit loads sdk self line else (self, [], None)) of
       (self', out, None) \<Rightarrow> (self', out, None)
     | (self', out, Some e) \<Rightarrow>
         (case emit (error_record e) of
            None \<Rightarrow> (self', out @ [Print (error_record e)], None)
          | Some e' \<Rightarrow> (self', out, Some e')))"

text \<open>
  The loop over what is read before the end of the input: it ends there, or earlier with the
  exception that leaves \<^verbatim>\<open>run\<close>.
\<close>

fun read_loop ::
    "emitter \<Rightarrow> (string \<Rightarrow> py_exn + pyval) \<Rightarrow> 'c sdk \<Rightarrow> 'c proxy \<Rightarrow> (py_exn + string) list
       \<Rightarrow> 'c proxy \<times> effect list \<times> py_exn option" where
  "read_loop emit loads sdk self [] = (self, [], None)"
| "read_loop emit loads sdk self (rd # rds) =
     (case read_turn emit loads sdk self rd of
        (self', out, Some e) \<Rightarrow> (self', out, Some e)
      | (self', out, None) \<Rightarrow>
          (case read_loop emit loads sdk self' rds of
             (self'', out', r) \<Rightarrow> (self'', out @ out', r)))"

text \<open>
  One turn of the loop of \<^verbatim>\<open>receive_from_claude\<close> (lines 53 to 67): the message is
  converted and the record, when it is not empty, written. When the write raises, the
  \<^verbatim>\<open>except Exception\<close> clause around the loop writes an \<^verbatim>\<open>error\<close> record and the loop
  is over. The result says whether the loop goes on.
\<close>

definition receive_turn ::
    "emitter \<Rightarrow> (pyval \<Rightarrow> string) \<Rightarrow> 'c proxy \<Rightarrow> pyval \<Rightarrow> 'c proxy \<times> effect list \<times> bool" where
  "receive_turn emit py_str self message =
    (case convert_to_stream_json py_str self message of
       (output, self') \<Rightarrow>
         if py_truthy output then
           (case emit output of
              None \<Rightarrow> (self', [Print output], True)
            | Some e \<Rightarrow>
                (case emit (error_record e) of
                   None \<Rightarrow> (self', [Print (error_record e)], False)
                 | Some e' \<Rightarrow> (self', [], False)))
         else (self', [], True))"

text \<open>
  The two loops run on one thread and \<^verbatim>\<open>convert_to_stream_json\<close> never awaits, and
  \<^verbatim>\<open>handle_input\<close> touches the proxy's fields only before its one \<^verbatim>\<open>await\<close>. So
  for the proxy's state a run is a sequence of steps, each a turn of the read loop or a
  turn of the receive loop, as long as that loop is running. The receive task is created by
  \<^verbatim>\<open>start\<close> but first runs when \<^verbatim>\<open>run\<close> first awaits, after the seeding.
\<close>

datatype event = Inbound "py_exn + string" | Upstream pyval

record 'c bridge =
  proxy_state :: "'c proxy"
  reading :: bool
  receiving :: bool

definition started :: "'c proxy \<Rightarrow> 'c bridge" where
  "started self = \<lparr>proxy_state = seed self, reading = True, receiving = True\<rparr>"

fun step ::
    "emitter \<Rightarrow> (pyval \<Rightarrow> string) \<Rightarrow> (string \<Rightarrow> py_exn + pyval) \<Rightarrow> 'c sdk \<Rightarrow> 'c bridge \<Rightarrow> event
       \<Rightarrow> 'c bridge \<times> effect list" where
  "step emit py_str loads sdk b (Inbound rd) =
     (if reading b then
        (case read_turn emit loads sdk (proxy_state b) rd of
           (self', out, r) \<Rightarrow> (b\<lparr>proxy_state := self', reading := (r = None)\<rparr>, out))
      else (b, []))"
| "step emit py_str loads sdk b (Upstream message) =
     (if receiving b then
        (case receive_turn emit py_str (proxy_state b) message of
           (self', out, goes_on) \<Rightarrow> (b\<lparr>proxy_state := self', receiving := goes_on\<rparr>, out))
      else (b, []))"

fun run_events ::
    "emitter \<Rightarrow> (pyval \<Rightarrow> string) \<Rightarrow> (string \<Rightarrow> py_exn + pyval) \<Rightarrow> 'c sdk \<Rightarrow> 'c bridge
       \<Rightarrow> event list \<Rightarrow> 'c bridge" where
  "run_events emit py_str loads sdk b [] = b"
| "run_events emit py_str loads sdk b (ev # evs) =
     run_events emit py_str loads sdk (fst (step emit py_str loads sdk b ev)) evs"

section \<open>The SDK's classes\<close>

text \<open>
  Modelled from the spec: the block and message classes are the SDK's (imported from
  \<^verbatim>\<open>claude_code_sdk\<close>, not part of this repository). The spec's data model gives the
  blocks as \<^verbatim>\<open>Text{text}\<close>, \<^verbatim>\<open>ToolUse{id, name, input: map}\<close>,
  \<^verbatim>\<open>ToolResult{tool_use_id, content, is_error}\<close> and \<^verbatim>\<open>Thinking{thinking, signature}\<close>;
  the attribute names are the ones the proxy reads.
\<close>

datatype content_block =
    TextBlock string
  | ToolUseBlock string string "(string \<times> pyval) list"
  | ToolResultBlock string pyval pyval
  | ThinkingBlock string string

fun block_obj :: "content_block \<Rightarrow> pyval" where
  "block_obj (TextBlock text) = PObj ''TextBlock'' [(''text'', PStr text)]"
| "block_obj (ToolUseBlock ident name inp) =
     PObj ''ToolUseBlock'' [(''id'', PStr ident), (''name'', PStr name), (''input'', PDict inp)]"
| "block_obj (ToolResultBlock tool_use_id content is_error) =
     PObj ''ToolResultBlock''
       [(''tool_use_id'', PStr tool_use_id), (''content'', content), (''is_error'', is_error)]"
| "block_obj (ThinkingBlock thinking signature) =
     PObj ''ThinkingBlock'' [(''thinking'', PStr thinking), (''signature'', PStr signature)]"

text \<open>
  Modelled from the spec: a \<^verbatim>\<open>SystemMessage\<close> has a subtype and a data map, a
  \<^verbatim>\<open>ResultMessage\<close> the nine fields the proxy copies.
\<close>

definition SystemMessage :: "string \<Rightarrow> (string \<times> pyval) list \<Rightarrow> pyval" where
  "SystemMessage subtype data =
     PObj ''SystemMessage'' [(''subtype'', PStr subtype), (''data'', PDict data)]"

definition ResultMessage ::
    "pyval \<Rightarrow> pyval \<Rightarrow> pyval \<Rightarrow> pyval \<Rightarrow> pyval \<Rightarrow> pyval \<Rightarrow> pyval \<Rightarrow> pyval \<Rightarrow> pyval \<Rightarrow> pyval" where
  "ResultMessage subtype duration_ms duration_api_ms is_error num_turns sid total_cost_usd
       usage result =
     PObj ''ResultMessage''
       [(''subtype'', subtype), (''duration_ms'', duration_ms),
        (''duration_api_ms'', duration_api_ms), (''is_error'', is_error),
        (''num_turns'', num_turns), (''session_id'', sid),
        (''total_cost_usd'', total_cost_usd), (''usage'', usage), (''result'', result)]"

section \<open>The text of a block sequence, and the wire shape of a block\<close>

text \<open>
  The spec's side of the round trip: the text of a Text block, the concatenation of the
  texts of the Text blocks of a sequence in order, and the wire shape of each kind of
  block (the spec's section on external interfaces).
\<close>

fun block_text :: "content_block \<Rightarrow> string" where
  "block_text (TextBlock text) = text"
| "block_text b = []"

definition text_segments :: "content_block list \<Rightarrow> string" where
  "text_segments blocks = concat (map block_text blocks)"

fun wire_block :: "content_block \<Rightarrow> pyval" where
  "wire_block (TextBlock text) = PDict [(''type'', PStr ''text''), (''text'', PStr text)]"
| "wire_block (ToolUseBlock ident name inp) =
     PDict [(''type'', PStr ''tool_use''), (''id'', PStr ident), (''name'', PStr name),
            (''input'', PDict inp)]"
| "wire_block (ToolResultBlock tool_use_id content is_error) =
     PDict [(''type'', PStr ''tool_result''), (''tool_use_id'', PStr tool_use_id),
            (''content'', content), (''is_error'', is_error)]"
| "wire_block (ThinkingBlock thinking signature) =
     PDict [(''type'', PStr ''thinking''), (''thinking'', PStr thinking),
            (''signature'', PStr signature)]"

section \<open>An environment for the examples\<close>

text \<open>
  The examples below run the model on concrete inputs, so they need concrete stand-ins for
  its three parameters. \<open>sample_str\<close> is \<^verbatim>\<open>str\<close> on the values the examples render
  (a string is its own rendering, \<^verbatim>\<open>None\<close> is \<^verbatim>\<open>None\<close>, a dataclass instance
  without fields is its class name and a pair of parentheses). \<open>sample_sdk\<close> is a
  client on which every call returns, and whose state is the list of the calls made so far;
  on \<open>broken_sdk\<close> every call raises. \<open>sample_emit\<close> is a standard output that takes
  every record (the examples' records are plain ASCII).
\<close>

fun sample_str :: "pyval \<Rightarrow> string" where
  "sample_str (PStr s) = s"
| "sample_str PNone = ''None''"
| "sample_str (PObj c []) = c @ ''()''"
| "sample_str v = ''<'' @ type_name v @ ''>''"

definition sample_sdk :: "(sdk_call list) sdk" where
  "sample_sdk calls call = (None, calls @ [call])"

definition broken_sdk :: "(sdk_call list) sdk" where
  "broken_sdk calls call = (Some (SDKError ''Not connected. Call connect() first.''), calls @ [call])"

definition sample_emit :: emitter where
  "sample_emit js = None"

definition sample_proxy :: "(sdk_call list) proxy" where
  "sample_proxy = init [] ''0f8fad5b-d9cb-469f-a165-70867728950e''"

text \<open>
  \<open>sample_loads\<close> is \<^verbatim>\<open>json.loads\<close> on the lines the examples feed: six objects, an
  array, \<^verbatim>\<open>NaN\<close>, which \<^verbatim>\<open>json.loads\<close> takes for the float of that name, and
  \<^verbatim>\<open>not json\<close>, on which it raises a \<^verbatim>\<open>JSONDecodeError\<close> with the message
  given. No example feeds any other line; the last branch only makes the function total.
\<close>

definition sample_loads :: "string \<Rightarrow> py_exn + pyval" where
  \<open>sample_loads line =
    (if line = ''{"type": "user", "message": {"role": "user", "content": [{"type": "text", "text": "hi"}]}, "session_id": "S2"}'' then
       Inr (PDict [(''type'', PStr ''user''),
                   (''message'', PDict [(''role'', PStr ''user''),
                      (''content'', PList [PDict [(''type'', PStr ''text''), (''text'', PStr ''hi'')]])]),
                   (''session_id'', PStr ''S2'')])
     else if line = ''{"type": "user", "message": {"role": "user", "content": [{"type": "text", "text": "hi"}]}}'' then
       Inr (PDict [(''type'', PStr ''user''),
                   (''message'', PDict [(''role'', PStr ''user''),
                      (''content'', PList [PDict [(''type'', PStr ''text''), (''text'', PStr ''hi'')]])])])
     else if line = ''{"type": "user", "message": {"role": "user", "content": []}, "session_id": null}'' then
       Inr (PDict [(''type'', PStr ''user''),
                   (''message'', PDict [(''role'', PStr ''user''), (''content'', PList [])]),
                   (''session_id'', PNone)])
     else if line = ''{"type": "control_request", "request_id": "r1", "request": {"subtype": "interrupt"}}'' then
       Inr (PDict [(''type'', PStr ''control_request''), (''request_id'', PStr ''r1''),
                   (''request'', PDict [(''subtype'', PStr ''interrupt'')])])
     else if line = ''{"type": "control_request", "request_id": "r2", "request": {"subtype": "set_model"}}'' then
       Inr (PDict [(''type'', PStr ''control_request''), (''request_id'', PStr ''r2''),
                   (''request'', PDict [(''subtype'', PStr ''set_model'')])])
     else if line = ''{"type": "control_request", "request_id": "r3", "request": null}'' then
       Inr (PDict [(''type'', PStr ''control_request''), (''request_id'', PStr ''r3''),
                   (''request'', PNone)])
     else if line = ''[1, 2]'' then Inr (PList [PInt 1, PInt 2])
     else if line = ''NaN'' then Inr (PFloat 0x7FF8000000000000)
     else if line = ''not json'' then
       Inl (JSONDecodeError ''Expecting value: line 1 column 1 (char 0)'')
     else Inl (JSONDecodeError ''line outside the table''))\<close>

section \<open>Where a JSON text can begin\<close>

text \<open>
  By the JSON grammar (RFC 8259) a JSON text is a value between optional whitespace, and a
  value begins with a brace, a bracket, a double quote, a minus sign, a digit, or the first
  letter of \<^verbatim>\<open>true\<close>, \<^verbatim>\<open>false\<close> or \<^verbatim>\<open>null\<close>. A line that does not begin so
  is not valid JSON.
\<close>

definition json_ws :: "char \<Rightarrow> bool" where
  "json_ws c = (c = CHR 0x20 \<or> c = CHR 0x09 \<or> c = CHR 0x0A \<or> c = CHR 0x0D)"

definition begins_json_value :: "char \<Rightarrow> bool" where
  "begins_json_value c = (c = CHR 0x22 \<or> c \<in> set ''{[-0123456789tfn'')"

definition may_begin_json :: "string \<Rightarrow> bool" where
  "may_begin_json line =
     (case dropWhile json_ws line of [] \<Rightarrow> False | c # cs \<Rightarrow> begins_json_value c)"

section \<open>Session ids that are not empty\<close>

text \<open>
  A session id that is neither \<^verbatim>\<open>None\<close> nor the empty string, and the events that
  supply only such ids: an inbound user message whose \<^verbatim>\<open>session_id\<close> field, when it
  has one, is not empty, and an upstream init event whose \<^verbatim>\<open>data\<close>, when it carries
  a \<^verbatim>\<open>session_id\<close>, carries one that is not empty. Every other event supplies none.
\<close>

definition nonempty_id :: "pyval \<Rightarrow> bool" where
  "nonempty_id v = (v \<noteq> PNone \<and> v \<noteq> PStr [])"

fun supplies_nonempty :: "(string \<Rightarrow> py_exn + pyval) \<Rightarrow> event \<Rightarrow> bool" where
  "supplies_nonempty loads (Inbound (Inl e)) = True"
| "supplies_nonempty loads (Inbound (Inr line)) =
     (case loads line of
        Inr (PDict d) \<Rightarrow>
          (if map_of d ''type'' = Some (PStr ''user'') then
             (case map_of d ''session_id'' of Some v \<Rightarrow> nonempty_id v | None \<Rightarrow> True)
           else True)
      | _ \<Rightarrow> True)"
| "supplies_nonempty loads (Upstream message) =
     (if isinstance message ''SystemMessage'' \<and> py_getattr message ''subtype'' = Inr (PStr ''init'')
      then (case py_getattr message ''data'' of
              Inr (PDict d) \<Rightarrow>
                (case map_of d ''session_id'' of Some v \<Rightarrow> nonempty_id v | None \<Rightarrow> True)
            | _ \<Rightarrow> True)
      else True)"

section \<open>Translation of upstream events\<close>

lemma convert_body_raise_keeps_state:
  assumes "convert_body py_str self message = (Inl e, self')"
  shows "self' = self"
proof (cases "isinstance message ''SystemMessage''")
  case False
  with assms show ?thesis
    by (auto simp: convert_body_def split: if_splits)
next
  case True
  then obtain attrs where m: "message = PObj ''SystemMessage'' attrs"
    by (cases message) auto
  show ?thesis
  proof (cases "on_system self message")
    case (Inl e')
    with assms m show ?thesis by (simp add: convert_body_def)
  next
    case (Inr s)
    show ?thesis
    proof (cases "map_of attrs ''data''")
      case None
      with Inr m have "s = self"
        by (auto simp: on_system_def and_then_def no_attribute_def split: option.splits if_splits)
      with assms m Inr show ?thesis by (auto simp: convert_body_def)
    next
      case (Some d)
      with Inr m assms show ?thesis
        by (auto simp: convert_body_def on_system_def and_then_def split: option.splits if_splits)
    qed
  qed
qed

text \<open>
  C1. Whatever the upstream event, when translating it raises an exception \<open>e\<close>, the value
  \<^verbatim>\<open>convert_to_stream_json\<close> returns is the one record
  \<^verbatim>\<open>{type: system, subtype: conversion_error, data: {error: str(e), message_type: type name}}\<close>,
  in place of the event's envelope, and the proxy's state is the one before the call. The
  function returns a record in every case: no exception reaches its caller.
\<close>

theorem conversion_error_in_place:
  assumes "convert_body py_str self message = (Inl e, self')"
  shows "convert_to_stream_json py_str self message =
           (PDict [(''type'', PStr ''system''), (''subtype'', PStr ''conversion_error''),
                   (''data'', PDict [(''error'', PStr (exn_str e)),
                                     (''message_type'', PStr (type_name message))])], self)"
proof -
  from assms have "self' = self" by (rule convert_body_raise_keeps_state)
  with assms show ?thesis
    by (simp add: convert_to_stream_json_def conversion_error_def)
qed

text \<open>
  An init event whose \<^verbatim>\<open>data\<close> is \<^verbatim>\<open>None\<close>: the membership test raises a
  \<^verbatim>\<open>TypeError\<close>, and the record returned carries its message.
\<close>

theorem conversion_error_in_place_witness:
  "convert_body sample_str (seed sample_proxy)
       (PObj ''SystemMessage'' [(''subtype'', PStr ''init''), (''data'', PNone)]) =
     (Inl (TypeError (''argument of type '' @ quoted ''NoneType'' @ '' is not iterable'')),
      seed sample_proxy)
   \<and> convert_to_stream_json sample_str (seed sample_proxy)
       (PObj ''SystemMessage'' [(''subtype'', PStr ''init''), (''data'', PNone)]) =
     (PDict [(''type'', PStr ''system''), (''subtype'', PStr ''conversion_error''),
             (''data'', PDict [(''error'', PStr (''argument of type '' @ quoted ''NoneType''
                                               @ '' is not iterable'')),
                               (''message_type'', PStr ''SystemMessage'')])],
      seed sample_proxy)"
proof -
  have h: "convert_body sample_str (seed sample_proxy)
       (PObj ''SystemMessage'' [(''subtype'', PStr ''init''), (''data'', PNone)]) =
     (Inl (TypeError (''argument of type '' @ quoted ''NoneType'' @ '' is not iterable'')),
      seed sample_proxy)"
    by (simp add: convert_body_def on_system_def and_then_def)
  show ?thesis using h conversion_error_in_place [OF h] by simp
qed

text \<open>
  C2. An upstream event of none of the four recognised classes is translated without an
  exception, to the record
  \<^verbatim>\<open>{type: system, subtype: unknown_message, data: {message_type, content}}\<close> with the
  event's type name and its string rendering; the proxy's state does not change.
\<close>

theorem unknown_message_record:
  assumes "\<not> isinstance message ''UserMessage''"
    and "\<not> isinstance message ''AssistantMessage''"
    and "\<not> isinstance message ''SystemMessage''"
    and "\<not> isinstance message ''ResultMessage''"
  shows "convert_body py_str self message =
           (Inr (PDict [(''type'', PStr ''system''), (''subtype'', PStr ''unknown_message''),
                        (''data'', PDict [(''message_type'', PStr (type_name message)),
                                          (''content'', PStr (py_str message))])]), self)
       \<and> convert_to_stream_json py_str self message =
           (PDict [(''type'', PStr ''system''), (''subtype'', PStr ''unknown_message''),
                   (''data'', PDict [(''message_type'', PStr (type_name message)),
                                     (''content'', PStr (py_str message))])], self)"
  using assms by (simp add: convert_body_def convert_to_stream_json_def)

theorem unknown_message_record_witness:
  "convert_to_stream_json sample_str (seed sample_proxy) (PObj ''KeepAlive'' []) =
     (PDict [(''type'', PStr ''system''), (''subtype'', PStr ''unknown_message''),
             (''data'', PDict [(''message_type'', PStr ''KeepAlive''),
                               (''content'', PStr ''KeepAlive()'')])], seed sample_proxy)"
proof -
  have "\<not> isinstance (PObj ''KeepAlive'' []) ''UserMessage''"
    and "\<not> isinstance (PObj ''KeepAlive'' []) ''AssistantMessage''"
    and "\<not> isinstance (PObj ''KeepAlive'' []) ''SystemMessage''"
    and "\<not> isinstance (PObj ''KeepAlive'' []) ''ResultMessage''"
    by simp_all
  from unknown_message_record [OF this, of sample_str "seed sample_proxy"]
  show ?thesis by simp
qed

text \<open>
  C8. A Result event is translated to a record of type \<^verbatim>\<open>result\<close> with the event's
  \<^verbatim>\<open>subtype\<close>, \<^verbatim>\<open>duration_ms\<close>, \<^verbatim>\<open>duration_api_ms\<close>, \<^verbatim>\<open>is_error\<close>,
  \<^verbatim>\<open>num_turns\<close>, \<^verbatim>\<open>total_cost_usd\<close>, \<^verbatim>\<open>usage\<close> and \<^verbatim>\<open>result\<close> copied as
  they are to the top level of the record (there is no \<^verbatim>\<open>data\<close> key), and with the
  event's own session id when it has one, else the active session id. The test the code
  makes for "has one" is Python's truth test: \<^verbatim>\<open>None\<close> and the empty string both
  give the active id.
\<close>

theorem result_envelope_flat:
  "convert_to_stream_json py_str self
       (ResultMessage subtype duration_ms duration_api_ms is_error num_turns sid
          total_cost_usd usage result) =
     (PDict [(''type'', PStr ''result''), (''subtype'', subtype),
             (''duration_ms'', duration_ms), (''duration_api_ms'', duration_api_ms),
             (''is_error'', is_error), (''num_turns'', num_turns),
             (''session_id'', if py_truthy sid then sid else active_session_id self),
             (''total_cost_usd'', total_cost_usd), (''usage'', usage),
             (''result'', result)], self)"
  by (simp add: convert_to_stream_json_def convert_body_def ResultMessage_def and_then_def)

section \<open>Content blocks there and back\<close>

lemma convert_block_obj: "convert_block (block_obj b) = Inr [wire_block b]"
  by (cases b) (simp_all add: convert_block_def and_then_def)

lemma convert_blocks_objs:
  "convert_blocks (map block_obj bs) result = Inr (result @ map wire_block bs)"
  by (induction bs arbitrary: result) (simp_all add: convert_block_obj and_then_def)

lemma concat_text_wire:
  "concat_text (map wire_block bs) acc = Inr (acc @ text_segments bs)"
proof (induction bs arbitrary: acc)
  case Nil
  show ?case by (simp add: text_segments_def)
next
  case (Cons b bs)
  show ?case
    by (cases b) (simp_all add: Cons.IH and_then_def text_segments_def)
qed

text \<open>
  C3. For every sequence of content blocks of the four kinds, the encoder
  \<^verbatim>\<open>_convert_content_blocks\<close> succeeds on it, and the inbound text extraction applied to
  its result gives the concatenation, in order, of the texts of the Text blocks of the
  sequence.
\<close>

theorem text_round_trip:
  "and_then (convert_content_blocks py_str (PList (map block_obj blocks))) extract_text
     = Inr (text_segments blocks)"
  by (simp add: convert_blocks_objs and_then_def extract_text_def concat_text_wire)

section \<open>Inbound lines: what is emitted and what is called\<close>

text \<open>
  C6, as the code has it. What \<^verbatim>\<open>handle_input\<close> reports as a parse error is what
  \<^verbatim>\<open>json.loads\<close> rejects with a \<^verbatim>\<open>JSONDecodeError\<close>, which is not every line that
  is not valid JSON. The line \<^verbatim>\<open>NaN\<close> is not valid JSON, \<^verbatim>\<open>json.loads\<close> returns a
  float for it, and the record printed is an \<^verbatim>\<open>error\<close> record, for the
  \<^verbatim>\<open>AttributeError\<close> of \<^verbatim>\<open>data.get\<close>; no \<^verbatim>\<open>parse_error\<close> record is printed.
\<close>

theorem malformed_line_counterexample:
  \<open>\<not> may_begin_json ''NaN''
   \<and> handle_input sample_emit sample_loads sample_sdk (seed sample_proxy) ''NaN'' =
     (seed sample_proxy,
      [Print (PDict [(''type'', PStr ''system''), (''subtype'', PStr ''error''),
         (''data'', PDict [(''error'', PStr (quoted ''float'' @ '' object has no attribute ''
                                             @ quoted ''get''))])])],
      None)\<close>
  by (simp add: may_begin_json_def json_ws_def begins_json_value_def sample_loads_def
      handle_input_def handle_body_def no_attribute_def error_record_def sample_emit_def)

text \<open>
  C6, amended. When \<^verbatim>\<open>json.loads\<close> rejects a line with a \<^verbatim>\<open>JSONDecodeError\<close> and
  the record \<^verbatim>\<open>{type: system, subtype: parse_error, data: {error, line}}\<close> can be
  written, \<^verbatim>\<open>handle_input\<close> prints exactly that one record, calls nothing, leaves the
  state as it was and raises nothing. So the read loop goes on: its run over the line and
  what is read after it is that one record (the loop never hands an empty line to
  \<^verbatim>\<open>handle_input\<close>) followed by exactly its run over what is read after it.
\<close>

theorem malformed_line_contained:
  assumes "loads line = Inl (JSONDecodeError msg)"
    and "emit (PDict [(''type'', PStr ''system''), (''subtype'', PStr ''parse_error''),
                      (''data'', PDict [(''error'', PStr (''Invalid JSON: '' @ msg)),
                                        (''line'', PStr line)])]) = None"
  shows "handle_input emit loads sdk self line =
           (self, [Print (PDict [(''type'', PStr ''system''), (''subtype'', PStr ''parse_error''),
                     (''data'', PDict [(''error'', PStr (''Invalid JSON: '' @ msg)),
                                       (''line'', PStr line)])])], None)
       \<and> read_loop emit loads sdk self (Inr line # rest) =
           (fst (read_loop emit loads sdk self rest),
            (if line \<noteq> [] then
               [Print (PDict [(''type'', PStr ''system''), (''subtype'', PStr ''parse_error''),
                     (''data'', PDict [(''error'', PStr (''Invalid JSON: '' @ msg)),
                                       (''line'', PStr line)])])]
             else []) @ fst (snd (read_loop emit loads sdk self rest)),
            snd (snd (read_loop emit loads sdk self rest)))"
  using assms
  by (simp add: handle_input_def handle_body_def parse_error_def read_turn_def
      split: prod.splits)

text \<open>
  The line \<^verbatim>\<open>not json\<close> and then a user message: one \<^verbatim>\<open>parse_error\<close> record,
  then the query for the message.
\<close>

theorem malformed_line_contained_witness:
  \<open>handle_input sample_emit sample_loads sample_sdk (seed sample_proxy) ''not json'' =
     (seed sample_proxy,
      [Print (PDict [(''type'', PStr ''system''), (''subtype'', PStr ''parse_error''),
         (''data'', PDict [(''error'', PStr ''Invalid JSON: Expecting value: line 1 column 1 (char 0)''),
                           (''line'', PStr ''not json'')])])],
      None)
   \<and> read_loop sample_emit sample_loads sample_sdk (seed sample_proxy)
       [Inr ''not json'',
        Inr ''{"type": "user", "message": {"role": "user", "content": [{"type": "text", "text": "hi"}]}, "session_id": "S2"}''] =
     ((seed sample_proxy)\<lparr>active_session_id := PStr ''S2'',
                             client := [Query ''hi'' (PStr ''S2'')]\<rparr>,
      [Print (PDict [(''type'', PStr ''system''), (''subtype'', PStr ''parse_error''),
         (''data'', PDict [(''error'', PStr ''Invalid JSON: Expecting value: line 1 column 1 (char 0)''),
                           (''line'', PStr ''not json'')])]),
       Call (Query ''hi'' (PStr ''S2''))],
      None)\<close>
proof -
  let ?good = \<open>''{"type": "user", "message": {"role": "user", "content": [{"type": "text", "text": "hi"}]}, "session_id": "S2"}''\<close>
  have h: "sample_loads ''not json'' =
      Inl (JSONDecodeError ''Expecting value: line 1 column 1 (char 0)'')"
    by (simp add: sample_loads_def)
  have e: "sample_emit (PDict [(''type'', PStr ''system''), (''subtype'', PStr ''parse_error''),
      (''data'', PDict [(''error'', PStr (''Invalid JSON: ''
                                          @ ''Expecting value: line 1 column 1 (char 0)'')),
                        (''line'', PStr ''not json'')])]) = None"
    by (simp add: sample_emit_def)
  have rest: "read_loop sample_emit sample_loads sample_sdk (seed sample_proxy) [Inr ?good] =
     ((seed sample_proxy)\<lparr>active_session_id := PStr ''S2'',
                             client := [Query ''hi'' (PStr ''S2'')]\<rparr>,
      [Call (Query ''hi'' (PStr ''S2''))], None)"
    by (simp add: sample_loads_def read_turn_def handle_input_def handle_body_def handle_user_def
        extract_text_def and_then_def sample_sdk_def seed_def sample_proxy_def init_def)
  from malformed_line_contained [where loads = sample_loads and line = "''not json''"
      and emit = sample_emit and sdk = sample_sdk and self = "seed sample_proxy"
      and rest = "[Inr ?good]", OF h e]
  show ?thesis by (simp only: rest fst_conv snd_conv) simp
qed

text \<open>
  C7, as the code has it. When the client's \<^verbatim>\<open>interrupt\<close> raises, the generic handler
  prints an \<^verbatim>\<open>error\<close> record and no \<^verbatim>\<open>control_response\<close> is printed.
\<close>

theorem interrupt_raises_counterexample:
  \<open>handle_input sample_emit sample_loads broken_sdk (seed sample_proxy)
     ''{"type": "control_request", "request_id": "r1", "request": {"subtype": "interrupt"}}'' =
     ((seed sample_proxy)\<lparr>client := [Interrupt]\<rparr>,
      [Call Interrupt,
       Print (PDict [(''type'', PStr ''system''), (''subtype'', PStr ''error''),
         (''data'', PDict [(''error'', PStr ''Not connected. Call connect() first.'')])])],
      None)\<close>
  by (simp add: sample_loads_def handle_input_def handle_body_def handle_control_def
      broken_sdk_def sample_emit_def error_record_def seed_def sample_proxy_def init_def)

text \<open>
  C7, amended. For a line that parses to an object with type \<^verbatim>\<open>control_request\<close>, a
  \<^verbatim>\<open>request_id\<close> and a request of subtype \<^verbatim>\<open>interrupt\<close>, \<^verbatim>\<open>handle_input\<close>
  calls \<^verbatim>\<open>interrupt\<close> first and once, and calls nothing else. When that call returns and
  the response can be written, what follows is the one line
  \<^verbatim>\<open>{type: control_response, response: {request_id, subtype: interrupt, error: null}}\<close>
  and nothing more, and nothing is raised.
\<close>

theorem interrupt_then_response:
  assumes "loads line = Inr (PDict d)"
    and "map_of d ''type'' = Some (PStr ''control_request'')"
    and "map_of d ''request_id'' = Some request_id"
    and "map_of d ''request'' = Some (PDict request)"
    and "map_of request ''subtype'' = Some (PStr ''interrupt'')"
  shows "take 1 (fst (snd (handle_input emit loads sdk self line))) = [Call Interrupt]
       \<and> calls_of (fst (snd (handle_input emit loads sdk self line))) = [Interrupt]
       \<and> (fst (sdk (client self) Interrupt) = None \<longrightarrow>
          emit (PDict [(''type'', PStr ''control_response''),
                       (''response'', PDict [(''request_id'', request_id),
                                             (''subtype'', PStr ''interrupt''),
                                             (''error'', PNone)])]) = None \<longrightarrow>
          handle_input emit loads sdk self line =
            (self\<lparr>client := snd (sdk (client self) Interrupt)\<rparr>,
             [Call Interrupt,
              Print (PDict [(''type'', PStr ''control_response''),
                            (''response'', PDict [(''request_id'', request_id),
                                                  (''subtype'', PStr ''interrupt''),
                                                  (''error'', PNone)])])],
             None))"
proof -
  obtain r c' where s: "sdk (client self) Interrupt = (r, c')"
    by (cases "sdk (client self) Interrupt") auto
  with assms show ?thesis
    by (auto simp: handle_input_def handle_body_def handle_control_def control_response_def
        Let_def split: option.splits)
qed

theorem interrupt_then_response_witness:
  \<open>calls_of (fst (snd (handle_input sample_emit sample_loads sample_sdk (seed sample_proxy)
     ''{"type": "control_request", "request_id": "r1", "request": {"subtype": "interrupt"}}'')))
     = [Interrupt]
   \<and> handle_input sample_emit sample_loads sample_sdk (seed sample_proxy)
     ''{"type": "control_request", "request_id": "r1", "request": {"subtype": "interrupt"}}'' =
     ((seed sample_proxy)\<lparr>client := [Interrupt]\<rparr>,
      [Call Interrupt,
       Print (PDict [(''type'', PStr ''control_response''),
                     (''response'', PDict [(''request_id'', PStr ''r1''),
                                           (''subtype'', PStr ''interrupt''),
                                           (''error'', PNone)])])],
      None)\<close>
proof -
  let ?line = \<open>''{"type": "control_request", "request_id": "r1", "request": {"subtype": "interrupt"}}''\<close>
  let ?request = "[(''subtype'', PStr ''interrupt'')]"
  let ?d = "[(''type'', PStr ''control_request''), (''request_id'', PStr ''r1''),
             (''request'', PDict ?request)]"
  have h1: "sample_loads ?line = Inr (PDict ?d)" by (simp add: sample_loads_def)
  have h2: "map_of ?d ''type'' = Some (PStr ''control_request'')" by simp
  have h3: "map_of ?d ''request_id'' = Some (PStr ''r1'')" by simp
  have h4: "map_of ?d ''request'' = Some (PDict ?request)" by simp
  have h5: "map_of ?request ''subtype'' = Some (PStr ''interrupt'')" by simp
  have h6: "sample_sdk (client (seed sample_proxy)) Interrupt = (None, [Interrupt])"
    by (simp add: sample_sdk_def seed_def sample_proxy_def init_def)
  from interrupt_then_response [where loads = sample_loads and line = ?line
      and emit = sample_emit and sdk = sample_sdk and self = "seed sample_proxy",
      OF h1 h2 h3 h4 h5]
  show ?thesis by (simp add: h6 sample_emit_def)
qed

text \<open>
  C9, as the code has it. A line that parses to something other than an object, or a control
  request whose \<^verbatim>\<open>request\<close> is not an object, makes \<^verbatim>\<open>.get\<close> raise, and the
  generic handler prints an \<^verbatim>\<open>error\<close> record, so such a line is not ignored in silence.
\<close>

theorem other_requests_counterexample:
  \<open>handle_input sample_emit sample_loads sample_sdk (seed sample_proxy)
     ''{"type": "control_request", "request_id": "r3", "request": null}'' =
     (seed sample_proxy,
      [Print (PDict [(''type'', PStr ''system''), (''subtype'', PStr ''error''),
         (''data'', PDict [(''error'', PStr (quoted ''NoneType'' @ '' object has no attribute ''
                                             @ quoted ''get''))])])],
      None)
   \<and> handle_input sample_emit sample_loads sample_sdk (seed sample_proxy) ''[1, 2]'' =
     (seed sample_proxy,
      [Print (PDict [(''type'', PStr ''system''), (''subtype'', PStr ''error''),
         (''data'', PDict [(''error'', PStr (quoted ''list'' @ '' object has no attribute ''
                                             @ quoted ''get''))])])],
      None)\<close>
  by (simp add: sample_loads_def handle_input_def handle_body_def handle_control_def
      no_attribute_def error_record_def sample_emit_def)

text \<open>
  C9, amended. For a line that parses to an object whose type is neither \<^verbatim>\<open>user\<close> nor
  \<^verbatim>\<open>control_request\<close>, and for a control request whose \<^verbatim>\<open>request\<close> is absent
  or is an object of a subtype other than \<^verbatim>\<open>interrupt\<close>, \<^verbatim>\<open>handle_input\<close>
  prints nothing, calls nothing, raises nothing and leaves the state as it was.
\<close>

theorem other_requests_ignored:
  assumes "loads line = Inr (PDict d)"
    and "map_of d ''type'' \<noteq> Some (PStr ''user'')"
    and "map_of d ''type'' = Some (PStr ''control_request'') \<Longrightarrow>
           map_of d ''request'' = None \<or>
           (\<exists>request. map_of d ''request'' = Some (PDict request)
                     \<and> map_of request ''subtype'' \<noteq> Some (PStr ''interrupt''))"
  shows "handle_input emit loads sdk self line = (self, [], None)"
  using assms
  by (auto simp: handle_input_def handle_body_def handle_control_def split: option.splits)

theorem other_requests_ignored_witness:
  \<open>handle_input sample_emit sample_loads sample_sdk (seed sample_proxy)
     ''{"type": "control_request", "request_id": "r2", "request": {"subtype": "set_model"}}'' =
     (seed sample_proxy, [], None)\<close>
proof -
  let ?line = \<open>''{"type": "control_request", "request_id": "r2", "request": {"subtype": "set_model"}}''\<close>
  let ?request = "[(''subtype'', PStr ''set_model'')]"
  let ?d = "[(''type'', PStr ''control_request''), (''request_id'', PStr ''r2''),
             (''request'', PDict ?request)]"
  have h1: "sample_loads ?line = Inr (PDict ?d)" by (simp add: sample_loads_def)
  have h2: "map_of ?d ''type'' \<noteq> Some (PStr ''user'')" by simp
  have h3: "map_of ?d ''request'' = None \<or>
            (\<exists>request. map_of ?d ''request'' = Some (PDict request)
                      \<and> map_of request ''subtype'' \<noteq> Some (PStr ''interrupt''))"
    by simp
  show ?thesis
    by (rule other_requests_ignored [where loads = sample_loads and line = ?line, OF h1 h2 h3])
qed

section \<open>The active session id\<close>

lemma handle_input_state_of_body:
  "fst (handle_input emit loads sdk self line) = fst (snd (handle_body emit loads sdk self line))"
proof -
  obtain r s out where b: "handle_body emit loads sdk self line = (r, s, out)"
    by (cases "handle_body emit loads sdk self line") auto
  show ?thesis
    by (cases r) (simp_all add: handle_input_def b Let_def split: option.splits)
qed

lemma handle_user_sets_id:
  assumes "map_of d ''message'' = Some (PDict message_data)"
  shows "active_session_id (fst (snd (handle_user sdk self (PDict d)))) =
           (case map_of d ''session_id'' of Some v \<Rightarrow> v | None \<Rightarrow> PStr (session_id self))"
proof -
  obtain content_blocks where c: "py_get (PDict message_data) ''content'' (PList []) = Inr content_blocks"
    by (cases "map_of message_data ''content''") auto
  obtain sid where sid: "py_get (PDict d) ''session_id'' (PStr (session_id self)) = Inr sid"
    and sid_eq: "sid = (case map_of d ''session_id'' of Some v \<Rightarrow> v | None \<Rightarrow> PStr (session_id self))"
    by (cases "map_of d ''session_id''") auto
  show ?thesis
  proof (cases "extract_text content_blocks")
    case (Inl e)
    with assms c sid sid_eq show ?thesis
      by (simp add: handle_user_def Let_def)
  next
    case (Inr text_content)
    obtain r c' where q: "sdk (client (self\<lparr>active_session_id := sid\<rparr>)) (Query text_content sid) = (r, c')"
      by (cases "sdk (client (self\<lparr>active_session_id := sid\<rparr>)) (Query text_content sid)") auto
    with Inr assms c sid sid_eq show ?thesis
      by (simp add: handle_user_def Let_def)
  qed
qed

lemma user_message_sets_id:
  assumes "loads line = Inr (PDict d)"
    and "map_of d ''type'' = Some (PStr ''user'')"
    and "map_of d ''message'' = Some (PDict message_data)"
  shows "active_session_id (fst (handle_input emit loads sdk self line)) =
           (case map_of d ''session_id'' of Some v \<Rightarrow> v | None \<Rightarrow> PStr (session_id self))"
proof -
  from assms(1,2) have "handle_body emit loads sdk self line = handle_user sdk self (PDict d)"
    by (simp add: handle_body_def)
  then show ?thesis
    by (simp only: handle_input_state_of_body handle_user_sets_id [OF assms(3)])
qed

text \<open>
  C10. A user message (an object of type \<^verbatim>\<open>user\<close> with a \<^verbatim>\<open>message\<close> object)
  that has no \<^verbatim>\<open>session_id\<close> field sets the active session id to the local id made
  at startup, whatever the active id was before: an id learned from an init event or from
  an earlier message is not kept.
\<close>

theorem absent_session_id_resets:
  assumes "loads line = Inr (PDict d)"
    and "map_of d ''type'' = Some (PStr ''user'')"
    and "map_of d ''message'' = Some (PDict message_data)"
    and "map_of d ''session_id'' = None"
  shows "active_session_id (fst (handle_input emit loads sdk self line)) = PStr (session_id self)"
  using user_message_sets_id [where loads = loads and line = line and emit = emit and sdk = sdk
      and self = self, OF assms(1,2,3)] assms(4)
  by simp

text \<open>After an init event has made \<^verbatim>\<open>S1\<close> the active id, such a message puts the local id back.\<close>

theorem absent_session_id_resets_witness:
  \<open>active_session_id (fst (handle_input sample_emit sample_loads sample_sdk
       ((seed sample_proxy)\<lparr>active_session_id := PStr ''S1''\<rparr>)
       ''{"type": "user", "message": {"role": "user", "content": [{"type": "text", "text": "hi"}]}}''))
     = PStr ''0f8fad5b-d9cb-469f-a165-70867728950e''\<close>
proof -
  let ?line = \<open>''{"type": "user", "message": {"role": "user", "content": [{"type": "text", "text": "hi"}]}}''\<close>
  let ?message = "[(''role'', PStr ''user''),
     (''content'', PList [PDict [(''type'', PStr ''text''), (''text'', PStr ''hi'')]])]"
  let ?d = "[(''type'', PStr ''user''), (''message'', PDict ?message)]"
  have h1: "sample_loads ?line = Inr (PDict ?d)" by (simp add: sample_loads_def)
  have h2: "map_of ?d ''type'' = Some (PStr ''user'')" by simp
  have h3: "map_of ?d ''message'' = Some (PDict ?message)" by simp
  have h4: "map_of ?d ''session_id'' = None" by simp
  from absent_session_id_resets [where loads = sample_loads and line = ?line
      and emit = sample_emit and sdk = sample_sdk
      and self = "(seed sample_proxy)\<lparr>active_session_id := PStr ''S1''\<rparr>", OF h1 h2 h3 h4]
  show ?thesis by (simp add: seed_def sample_proxy_def init_def)
qed

lemma read_turn_state:
  "fst (read_turn emit loads sdk self rd) =
     (case rd of
        Inl e \<Rightarrow> self
      | Inr line \<Rightarrow> if line \<noteq> [] then fst (handle_input emit loads sdk self line) else self)"
proof (cases rd)
  case (Inl e)
  then show ?thesis by (simp add: read_turn_def split: option.splits)
next
  case (Inr line)
  obtain s out r where h: "handle_input emit loads sdk self line = (s, out, r)"
    by (cases "handle_input emit loads sdk self line") auto
  with Inr show ?thesis
    by (cases r) (simp_all add: read_turn_def split: option.splits)
qed

lemma receive_turn_state:
  "fst (receive_turn emit py_str self message) = snd (convert_to_stream_json py_str self message)"
  by (simp add: receive_turn_def split: prod.splits option.splits)

lemma step_inbound_state:
  "proxy_state (fst (step emit py_str loads sdk b (Inbound rd))) =
     (if reading b then fst (read_turn emit loads sdk (proxy_state b) rd) else proxy_state b)"
  by (simp split: prod.splits)

lemma step_upstream_state:
  "proxy_state (fst (step emit py_str loads sdk b (Upstream message))) =
     (if receiving b then snd (convert_to_stream_json py_str (proxy_state b) message)
      else proxy_state b)"
proof (cases "receive_turn emit py_str (proxy_state b) message")
  case (fields s out goes_on)
  with receive_turn_state [of emit py_str "proxy_state b" message] show ?thesis by simp
qed

lemma step_upstream_reading:
  "reading (fst (step emit py_str loads sdk b (Upstream message))) = reading b"
  by (simp split: prod.splits)

lemma init_with_id:
  assumes "map_of data ''session_id'' = Some v"
  shows "convert_to_stream_json py_str self (SystemMessage ''init'' data) =
           (PDict [(''type'', PStr ''system''), (''subtype'', PStr ''init''), (''data'', PDict data),
                   (''session_id'', v)], self\<lparr>active_session_id := v\<rparr>)"
  using assms
  by (simp add: convert_to_stream_json_def convert_body_def on_system_def SystemMessage_def
      and_then_def)

lemma init_without_id:
  assumes "map_of data ''session_id'' = None" and "py_truthy (active_session_id self)"
  shows "convert_to_stream_json py_str self (SystemMessage ''init'' data) =
           (PDict [(''type'', PStr ''system''), (''subtype'', PStr ''init''), (''data'', PDict data),
                   (''session_id'', active_session_id self)], self)"
  using assms
  by (simp add: convert_to_stream_json_def convert_body_def on_system_def SystemMessage_def
      and_then_def)

text \<open>
  C4. From the seeded state: an init event whose data carries the session id \<^verbatim>\<open>S1\<close>
  makes \<^verbatim>\<open>S1\<close> the active id; a user message with the session id \<^verbatim>\<open>S2\<close> after
  it makes the active id \<^verbatim>\<open>S2\<close>; an init event without a session id after that
  leaves it \<^verbatim>\<open>S2\<close>.
\<close>

theorem session_precedence:
  assumes "map_of data1 ''session_id'' = Some (PStr ''S1'')"
    and "line2 \<noteq> []"
    and "loads line2 = Inr (PDict d2)"
    and "map_of d2 ''type'' = Some (PStr ''user'')"
    and "map_of d2 ''message'' = Some (PDict message_data)"
    and "map_of d2 ''session_id'' = Some (PStr ''S2'')"
    and "map_of data3 ''session_id'' = None"
  shows "active_session_id (proxy_state (run_events emit py_str loads sdk (started self)
            [Upstream (SystemMessage ''init'' data1)])) = PStr ''S1''
       \<and> active_session_id (proxy_state (run_events emit py_str loads sdk (started self)
            [Upstream (SystemMessage ''init'' data1), Inbound (Inr line2)])) = PStr ''S2''
       \<and> active_session_id (proxy_state (run_events emit py_str loads sdk (started self)
            [Upstream (SystemMessage ''init'' data1), Inbound (Inr line2),
             Upstream (SystemMessage ''init'' data3)])) = PStr ''S2''"
proof -
  define b1 where
    "b1 = fst (step emit py_str loads sdk (started self) (Upstream (SystemMessage ''init'' data1)))"
  define b2 where "b2 = fst (step emit py_str loads sdk b1 (Inbound (Inr line2)))"
  define b3 where
    "b3 = fst (step emit py_str loads sdk b2 (Upstream (SystemMessage ''init'' data3)))"
  have a1: "active_session_id (proxy_state b1) = PStr ''S1''"
    unfolding b1_def step_upstream_state
    by (simp add: started_def init_with_id [OF assms(1)])
  have "reading b1"
    unfolding b1_def step_upstream_reading by (simp add: started_def)
  then have "proxy_state b2 = fst (handle_input emit loads sdk (proxy_state b1) line2)"
    unfolding b2_def step_inbound_state using assms(2) by (simp add: read_turn_state)
  with user_message_sets_id [where loads = loads and line = line2 and emit = emit and sdk = sdk
        and self = "proxy_state b1", OF assms(3,4,5)] assms(6)
  have a2: "active_session_id (proxy_state b2) = PStr ''S2''" by simp
  then have "py_truthy (active_session_id (proxy_state b2))" by simp
  from init_without_id [OF assms(7) this, of py_str]
  have a3: "active_session_id (proxy_state b3) = PStr ''S2''"
    unfolding b3_def step_upstream_state by (simp add: a2)
  have "run_events emit py_str loads sdk (started self)
           [Upstream (SystemMessage ''init'' data1)] = b1"
    and "run_events emit py_str loads sdk (started self)
           [Upstream (SystemMessage ''init'' data1), Inbound (Inr line2)] = b2"
    and "run_events emit py_str loads sdk (started self)
           [Upstream (SystemMessage ''init'' data1), Inbound (Inr line2),
            Upstream (SystemMessage ''init'' data3)] = b3"
    by (simp_all only: run_events.simps b1_def b2_def b3_def)
  with a1 a2 a3 show ?thesis by (simp only: simp_thms)
qed

theorem session_precedence_witness:
  \<open>active_session_id (proxy_state (run_events sample_emit sample_str sample_loads sample_sdk
      (started sample_proxy)
      [Upstream (SystemMessage ''init'' [(''session_id'', PStr ''S1'')])])) = PStr ''S1''
   \<and> active_session_id (proxy_state (run_events sample_emit sample_str sample_loads sample_sdk
      (started sample_proxy)
      [Upstream (SystemMessage ''init'' [(''session_id'', PStr ''S1'')]),
       Inbound (Inr ''{"type": "user", "message": {"role": "user", "content": [{"type": "text", "text": "hi"}]}, "session_id": "S2"}'')])) = PStr ''S2''
   \<and> active_session_id (proxy_state (run_events sample_emit sample_str sample_loads sample_sdk
      (started sample_proxy)
      [Upstream (SystemMessage ''init'' [(''session_id'', PStr ''S1'')]),
       Inbound (Inr ''{"type": "user", "message": {"role": "user", "content": [{"type": "text", "text": "hi"}]}, "session_id": "S2"}''),
       Upstream (SystemMessage ''init'' [(''cwd'', PStr ''/tmp'')])])) = PStr ''S2''\<close>
proof -
  let ?line = \<open>''{"type": "user", "message": {"role": "user", "content": [{"type": "text", "text": "hi"}]}, "session_id": "S2"}''\<close>
  let ?message = "[(''role'', PStr ''user''),
     (''content'', PList [PDict [(''type'', PStr ''text''), (''text'', PStr ''hi'')]])]"
  let ?d = "[(''type'', PStr ''user''), (''message'', PDict ?message),
     (''session_id'', PStr ''S2'')]"
  have h1: "map_of [(''session_id'', PStr ''S1'')] ''session_id'' = Some (PStr ''S1'')" by simp
  have h2: "?line \<noteq> []" by simp
  have h3: "sample_loads ?line = Inr (PDict ?d)" by (simp add: sample_loads_def)
  have h4: "map_of ?d ''type'' = Some (PStr ''user'')" by simp
  have h5: "map_of ?d ''message'' = Some (PDict ?message)" by simp
  have h6: "map_of ?d ''session_id'' = Some (PStr ''S2'')" by simp
  have h7: "map_of [(''cwd'', PStr ''/tmp'')] ''session_id'' = None" by simp
  show ?thesis
    by (rule session_precedence [where loads = sample_loads, OF h1 h2 h3 h4 h5 h6 h7])
qed

text \<open>
  C5, as the code has it. The active id is whatever the client or the SDK supplies: a user
  message with \<^verbatim>\<open>"session_id": null\<close> makes it \<^verbatim>\<open>None\<close>.
\<close>

theorem active_id_null_counterexample:
  \<open>active_session_id (proxy_state (run_events sample_emit sample_str sample_loads sample_sdk
      (started sample_proxy)
      [Inbound (Inr ''{"type": "user", "message": {"role": "user", "content": []}, "session_id": null}'')]))
    = PNone\<close>
  by (simp add: started_def read_turn_def sample_loads_def handle_input_def handle_body_def
      handle_user_def extract_text_def and_then_def sample_sdk_def)

lemma handle_user_state:
  assumes "handle_user sdk self data = (r, self', out)"
  shows "session_id self' = session_id self \<and>
         (active_session_id self' = active_session_id self \<or>
          (\<exists>d. data = PDict d \<and> active_session_id self' =
                 (case map_of d ''session_id'' of Some v \<Rightarrow> v | None \<Rightarrow> PStr (session_id self))))"
proof (cases data)
  case (PDict d)
  with assms show ?thesis
    by (auto simp: handle_user_def Let_def split: option.splits sum.splits prod.splits)
qed (use assms in \<open>auto simp: handle_user_def\<close>)

lemma handle_control_state:
  assumes "handle_control emit sdk self data = (r, self', out)"
  shows "session_id self' = session_id self \<and> active_session_id self' = active_session_id self"
  using assms
  by (auto simp: handle_control_def split: sum.splits prod.splits option.splits if_splits)

lemma handle_body_state:
  assumes "handle_body emit loads sdk self line = (r, self', out)"
  shows "session_id self' = session_id self \<and>
         (active_session_id self' = active_session_id self \<or>
          (\<exists>d. loads line = Inr (PDict d) \<and> map_of d ''type'' = Some (PStr ''user'') \<and>
               active_session_id self' =
                 (case map_of d ''session_id'' of Some v \<Rightarrow> v | None \<Rightarrow> PStr (session_id self))))"
proof (cases "loads line")
  case (Inl e)
  with assms show ?thesis by (auto simp: handle_body_def)
next
  case (Inr data)
  show ?thesis
  proof (cases "py_get data ''type'' PNone")
    case (Inl e)
    with Inr assms show ?thesis by (auto simp: handle_body_def)
  next
    case ty: (Inr ty)
    consider (user) "ty = PStr ''user''"
      | (control) "ty \<noteq> PStr ''user''" "ty = PStr ''control_request''"
      | (other) "ty \<noteq> PStr ''user''" "ty \<noteq> PStr ''control_request''"
      by blast
    then show ?thesis
    proof cases
      case user
      with Inr ty assms have hu: "handle_user sdk self data = (r, self', out)"
        by (simp add: handle_body_def)
      from handle_user_state [OF hu] Inr ty user show ?thesis
        by (cases data) (auto split: option.splits)
    next
      case control
      with Inr ty assms have hc: "handle_control emit sdk self data = (r, self', out)"
        by (simp add: handle_body_def)
      from handle_control_state [OF hc] show ?thesis by simp
    next
      case other
      with Inr ty assms show ?thesis by (auto simp: handle_body_def)
    qed
  qed
qed

lemma handle_input_state:
  "session_id (fst (handle_input emit loads sdk self line)) = session_id self \<and>
   (active_session_id (fst (handle_input emit loads sdk self line)) = active_session_id self \<or>
    (\<exists>d. loads line = Inr (PDict d) \<and> map_of d ''type'' = Some (PStr ''user'') \<and>
         active_session_id (fst (handle_input emit loads sdk self line)) =
           (case map_of d ''session_id'' of Some v \<Rightarrow> v | None \<Rightarrow> PStr (session_id self))))"
proof -
  obtain r s out where b: "handle_body emit loads sdk self line = (r, s, out)"
    by (cases "handle_body emit loads sdk self line") auto
  from handle_body_state [OF b] show ?thesis
    by (simp only: handle_input_state_of_body b fst_conv snd_conv)
qed

lemma on_system_state:
  assumes "on_system self message = Inr self'"
  shows "session_id self' = session_id self \<and>
         (active_session_id self' = active_session_id self \<or>
          active_session_id self' = PStr (session_id self) \<or>
          (\<exists>d v. py_getattr message ''subtype'' = Inr (PStr ''init'') \<and>
                 py_getattr message ''data'' = Inr (PDict d) \<and>
                 map_of d ''session_id'' = Some v \<and> active_session_id self' = v))"
proof (cases "py_getattr message ''subtype'' = Inr (PStr ''init'')")
  case False
  with assms show ?thesis
    by (auto simp: on_system_def and_then_def split: sum.splits if_splits)
next
  case True
  show ?thesis
  proof (cases "py_getattr message ''data''")
    case (Inl e)
    with True assms show ?thesis by (simp add: on_system_def and_then_def)
  next
    case (Inr data)
    with True assms show ?thesis
      by (cases data)
         (auto simp: on_system_def and_then_def split: sum.splits if_splits option.splits)
  qed
qed

lemma convert_state:
  assumes "convert_to_stream_json py_str self message = (output, self')"
  shows "session_id self' = session_id self \<and>
         (active_session_id self' = active_session_id self \<or>
          active_session_id self' = PStr (session_id self) \<or>
          (\<exists>d v. isinstance message ''SystemMessage'' \<and>
                 py_getattr message ''subtype'' = Inr (PStr ''init'') \<and>
                 py_getattr message ''data'' = Inr (PDict d) \<and>
                 map_of d ''session_id'' = Some v \<and> active_session_id self' = v))"
proof (cases "isinstance message ''SystemMessage''")
  case False
  with assms have "self' = self"
    by (auto simp: convert_to_stream_json_def convert_body_def split: if_splits sum.splits)
  then show ?thesis by simp
next
  case True
  then have nu: "\<not> isinstance message ''UserMessage''" "\<not> isinstance message ''AssistantMessage''"
    by (cases message; simp)+
  show ?thesis
  proof (cases "on_system self message")
    case (Inl e)
    with True nu assms have "self' = self"
      by (auto simp: convert_to_stream_json_def convert_body_def)
    then show ?thesis by simp
  next
    case (Inr s)
    with True nu assms have "s = self'"
      by (auto simp: convert_to_stream_json_def convert_body_def split: sum.splits)
    with on_system_state [OF Inr] True show ?thesis by auto
  qed
qed

lemma step_keeps_nonempty:
  assumes "session_id (proxy_state b) \<noteq> []"
    and "nonempty_id (active_session_id (proxy_state b))"
    and "supplies_nonempty loads ev"
  shows "session_id (proxy_state (fst (step emit py_str loads sdk b ev))) = session_id (proxy_state b)
       \<and> nonempty_id (active_session_id (proxy_state (fst (step emit py_str loads sdk b ev))))"
proof (cases ev)
  case (Inbound rd)
  show ?thesis
  proof (cases rd)
    case (Inl e)
    with Inbound assms show ?thesis
      by (simp only: step_inbound_state read_turn_state) simp
  next
    case (Inr line)
    from handle_input_state [of emit loads sdk "proxy_state b" line] assms Inbound Inr
    show ?thesis
      by (simp only: step_inbound_state read_turn_state)
         (auto simp: nonempty_id_def split: option.splits)
  qed
next
  case (Upstream message)
  obtain js s where h: "convert_to_stream_json py_str (proxy_state b) message = (js, s)"
    by (cases "convert_to_stream_json py_str (proxy_state b) message") auto
  from convert_state [OF h] assms Upstream h show ?thesis
    by (simp only: step_upstream_state) (auto simp: nonempty_id_def)
qed

lemma run_events_keeps_nonempty:
  assumes "session_id (proxy_state b) \<noteq> []"
    and "nonempty_id (active_session_id (proxy_state b))"
    and "\<forall>ev \<in> set evs. supplies_nonempty loads ev"
  shows "nonempty_id (active_session_id (proxy_state (run_events emit py_str loads sdk b evs)))"
  using assms
proof (induction evs arbitrary: b)
  case Nil
  then show ?case by simp
next
  case (Cons ev evs)
  from Cons.prems have "supplies_nonempty loads ev" by simp
  from step_keeps_nonempty [OF Cons.prems(1,2) this, of emit py_str sdk]
  have "session_id (proxy_state (fst (step emit py_str loads sdk b ev))) \<noteq> []"
    and "nonempty_id (active_session_id (proxy_state (fst (step emit py_str loads sdk b ev))))"
    using Cons.prems(1) by simp_all
  from Cons.IH [OF this] Cons.prems(3) show ?case by simp
qed

text \<open>
  C5, amended. With a local id that is not empty (it is a UUID's text), over every sequence of
  inbound lines and upstream events that supply no empty session id, the active session id
  is never \<^verbatim>\<open>None\<close> and never the empty string once it is seeded.
\<close>

theorem active_id_stays_nonempty:
  assumes "session_id self \<noteq> []"
    and "\<forall>ev \<in> set evs. supplies_nonempty loads ev"
  shows "nonempty_id (active_session_id (proxy_state
           (run_events emit py_str loads sdk (started self) evs)))"
proof -
  have "session_id (proxy_state (started self)) \<noteq> []"
    "nonempty_id (active_session_id (proxy_state (started self)))"
    using assms(1) by (simp_all add: started_def seed_def nonempty_id_def)
  then show ?thesis using assms(2) by (rule run_events_keeps_nonempty)
qed

theorem active_id_stays_nonempty_witness:
  \<open>nonempty_id (active_session_id (proxy_state
     (run_events sample_emit sample_str sample_loads sample_sdk (started sample_proxy)
      [Upstream (SystemMessage ''init'' [(''session_id'', PStr ''S1'')]),
       Inbound (Inr ''{"type": "user", "message": {"role": "user", "content": [{"type": "text", "text": "hi"}]}}''),
       Upstream (SystemMessage ''init'' [(''cwd'', PStr ''/tmp'')])])))\<close>
proof -
  have h1: "session_id sample_proxy \<noteq> []"
    by (simp add: sample_proxy_def init_def)
  have h2: \<open>\<forall>ev \<in> set
      [Upstream (SystemMessage ''init'' [(''session_id'', PStr ''S1'')]),
       Inbound (Inr ''{"type": "user", "message": {"role": "user", "content": [{"type": "text", "text": "hi"}]}}''),
       Upstream (SystemMessage ''init'' [(''cwd'', PStr ''/tmp'')])].
      supplies_nonempty sample_loads ev\<close>
    by (simp add: sample_loads_def SystemMessage_def nonempty_id_def)
  show ?thesis by (rule active_id_stays_nonempty [OF h1 h2])
qed

end
